theory Spec2Isabelle
  imports Main "HOL-Library.Word"
begin

unbundle bit_operations_syntax

section \<open>Common types\<close>

type_synonym u8 = "8 word"
type_synonym u16 = "16 word"
type_synonym u32 = "32 word"

text \<open>
  Run-time panics of the Go program are values: a panic raised by the program itself with a
  \<open>util.ServerError\<close> carrying a message, and the two run-time faults that indexing and
  slicing can raise.
\<close>

datatype go_panic =
    ServerError string
  | IndexOutOfRange
  | SliceBoundsOutOfRange

section \<open>configuration.go\<close>

text \<open>An open \<open>*sql.DB\<close> handle; a nil pointer is \<open>None\<close> in the field below.\<close>

datatype sql_DB = DBHandle nat

text \<open>\<open>LogPriority\<close> is a byte.\<close>

type_synonym LogPriority = u8

definition LogPriorityCritical :: LogPriority where "LogPriorityCritical = 1"
definition LogPriorityHigh :: LogPriority where "LogPriorityHigh = 2"
definition LogPriorityMedium :: LogPriority where "LogPriorityMedium = 3"
definition LogPriorityLow :: LogPriority where "LogPriorityLow = 4"

record configuration =
  Hostname :: string
  LoginPort :: string
  CharacterPort :: string
  DBHost :: string
  DBPort :: string
  DBName :: string
  DBUsername :: string
  DBPassword :: string
  Logfile :: string
  LogLevel :: LogPriority
  DebugMode :: bool
  database :: "sql_DB option"

text \<open>
  \<open>enforceDefaults\<close> mutates the configuration in place, one guarded assignment after the
  other; the model returns the updated record.
\<close>

definition enforceDefaults :: "configuration \<Rightarrow> configuration" where
  "enforceDefaults config =
     (let c1 = (if Hostname config = '''' then config\<lparr>Hostname := ''127.0.0.1''\<rparr> else config);
          c2 = (if LoginPort c1 = '''' then c1\<lparr>LoginPort := ''12000''\<rparr> else c1);
          c3 = (if CharacterPort c2 = '''' then c2\<lparr>CharacterPort := ''12001''\<rparr> else c2);
          c4 = (if LogLevel c3 < LogPriorityCritical \<or> LogLevel c3 > LogPriorityLow
                then c3\<lparr>LogLevel := LogPriorityCritical\<rparr> else c3)
      in c4)"

text \<open>
  \<open>InitFromFile\<close> reads the file, hands the bytes to \<open>json.Unmarshal\<close> (whose error it
  drops) and enforces the defaults. The file system and the JSON decoder are the Go
  library's; they are parameters here. The result is the returned error (\<open>None\<close> for
  nil) and the configuration afterwards.
\<close>

definition InitFromFile ::
  "(string \<Rightarrow> string + u8 list) \<Rightarrow> (u8 list \<Rightarrow> configuration \<Rightarrow> configuration) \<Rightarrow>
   configuration \<Rightarrow> string \<Rightarrow> string option \<times> configuration" where
  "InitFromFile ReadFile Unmarshal config fileName =
     (case ReadFile fileName of
        Inl err \<Rightarrow> (Some err, config)
      | Inr data \<Rightarrow> (None, enforceDefaults (Unmarshal data config)))"

text \<open>\<open>strings.Split\<close> with a one-character separator.\<close>

fun Split :: "string \<Rightarrow> char \<Rightarrow> string list" where
  "Split [] sep = [[]]"
| "Split (c # cs) sep =
     (if c = sep then [] # Split cs sep
      else (let r = Split cs sep in (c # hd r) # tl r))"

text \<open>
  \<open>strconv.ParseUint(s, 10, 8)\<close>: the value and the error. An empty string or a character
  that is not a decimal digit is a syntax error with value 0; a value above 255 is a range
  error, returned as soon as the running value exceeds the maximum, with the maximum as
  value.
\<close>

datatype NumError = ErrSyntax | ErrRange

fun ParseUint_loop :: "nat \<Rightarrow> string \<Rightarrow> nat \<times> NumError option" where
  "ParseUint_loop n [] = (n, None)"
| "ParseUint_loop n (c # cs) =
     (let d = (of_char c :: nat) in
      if 48 \<le> d \<and> d \<le> 57 then
        (let n1 = n * 10 + (d - 48) in
         if n1 > 255 then (255, Some ErrRange) else ParseUint_loop n1 cs)
      else (0, Some ErrSyntax))"

definition ParseUint_10_8 :: "string \<Rightarrow> nat \<times> NumError option" where
  "ParseUint_10_8 s = (if s = [] then (0, Some ErrSyntax) else ParseUint_loop 0 s)"

text \<open>
  The loop of \<open>HostnameBytes\<close> over \<open>i = 0, 1, 2, 3\<close>. Reading \<open>parts[i]\<close> past the end
  of the slice panics; the bytes stored before the panic stay in the global array.
\<close>

fun HostnameBytes_loop :: "string list \<Rightarrow> nat list \<Rightarrow> u8 list \<Rightarrow> go_panic option \<times> u8 list" where
  "HostnameBytes_loop parts [] cache = (None, cache)"
| "HostnameBytes_loop parts (i # is) cache =
     (if i < length parts
      then HostnameBytes_loop parts is (cache[i := of_nat (fst (ParseUint_10_8 (parts ! i)))])
      else (Some IndexOutOfRange, cache))"

text \<open>
  \<open>HostnameBytes\<close> reads and writes the package-level array \<open>cachedHostBytes\<close>
  (four bytes, all zero when the process starts). The model takes the array and returns
  the outcome together with the array afterwards.
\<close>

definition cachedHostBytes_init :: "u8 list" where
  "cachedHostBytes_init = [0, 0, 0, 0]"

definition HostnameBytes :: "configuration \<Rightarrow> u8 list \<Rightarrow> (go_panic + u8 list) \<times> u8 list" where
  "HostnameBytes config cachedHostBytes =
     (if cachedHostBytes ! 0 = 0 then
        (let parts = Split (Hostname config) (CHR ''.'') in
         case HostnameBytes_loop parts [0, 1, 2, 3] cachedHostBytes of
           (Some p, cache) \<Rightarrow> (Inl p, cache)
         | (None, cache) \<Rightarrow> (Inr cache, cache))
      else (Inr cachedHostBytes, cachedHostBytes))"

text \<open>\<open>Database\<close> panics on a nil handle and returns the handle otherwise.\<close>

definition Database :: "configuration \<Rightarrow> go_panic + sql_DB" where
  "Database config =
     (case database config of
        None \<Rightarrow> Inl (ServerError ''Attempt to reference uninitialized database'')
      | Some db \<Rightarrow> Inr db)"

text \<open>The invariant that \<open>enforceDefaults\<close> establishes.\<close>

definition defaults_enforced :: "configuration \<Rightarrow> bool" where
  "defaults_enforced c \<longleftrightarrow>
     Hostname c \<noteq> '''' \<and> LoginPort c \<noteq> '''' \<and> CharacterPort c \<noteq> '''' \<and>
     1 \<le> LogLevel c \<and> LogLevel c \<le> 4"

section \<open>Fixed-layout records\<close>

text \<open>
  The struct types of \<open>character.go\<close> and \<open>packets.go\<close> are handled by reflection in the
  Go program, so they are modelled the same way: a type descriptor for each declaration, and
  a universe of values. A \<open>float32\<close> is carried as its 32-bit IEEE pattern, which is what
  goes on the wire. An embedded struct is a field named after its type.
\<close>

datatype gotype = TUint8 | TUint16 | TUint32 | TFloat32
  | TArray nat gotype
  | TStruct "(string \<times> gotype) list"

datatype govalue = VUint8 u8 | VUint16 u16 | VUint32 u32 | VFloat32 u32
  | VArray "govalue list"
  | VStruct "govalue list"


text \<open>
  The packed size of a type (no alignment padding): the size that Go's
  \<open>encoding/binary\<close> gives to a fixed-size value.
\<close>

fun sizeof :: "gotype \<Rightarrow> nat" where
  "sizeof TUint8 = 1"
| "sizeof TUint16 = 2"
| "sizeof TUint32 = 4"
| "sizeof TFloat32 = 4"
| "sizeof (TArray n t) = n * sizeof t"
| "sizeof (TStruct fs) = sum_list (map (\<lambda>f. sizeof (snd f)) fs)"

text \<open>A value is valid for a type when it has its shape: arrays at their declared length.\<close>

fun has_type :: "govalue \<Rightarrow> gotype \<Rightarrow> bool" where
  "has_type (VUint8 _) TUint8 = True"
| "has_type (VUint16 _) TUint16 = True"
| "has_type (VUint32 _) TUint32 = True"
| "has_type (VFloat32 _) TFloat32 = True"
| "has_type (VArray vs) (TArray n t) = (length vs = n \<and> (\<forall>v \<in> set vs. has_type v t))"
| "has_type (VStruct vs) (TStruct fs) = list_all2 (\<lambda>v f. has_type v (snd f)) vs fs"
| "has_type _ _ = False"


text \<open>
  The byte offset of a named member in the packed layout: walk the declaration in order,
  adding up the sizes of the members passed.
\<close>

fun offset_from :: "nat \<Rightarrow> (string \<times> gotype) list \<Rightarrow> string \<Rightarrow> nat option" where
  "offset_from off [] name = None"
| "offset_from off (f # fs) name =
     (if fst f = name then Some off else offset_from (off + sizeof (snd f)) fs name)"

fun members :: "gotype \<Rightarrow> (string \<times> gotype) list" where
  "members (TStruct fs) = fs"
| "members _ = []"

definition offsetof :: "gotype \<Rightarrow> string \<Rightarrow> nat option" where
  "offsetof t name = offset_from 0 (members t) name"

text \<open>The zero value of a type, as \<open>new(T)\<close> makes it.\<close>

fun zero_value :: "gotype \<Rightarrow> govalue" where
  "zero_value TUint8 = VUint8 0"
| "zero_value TUint16 = VUint16 0"
| "zero_value TUint32 = VUint32 0"
| "zero_value TFloat32 = VFloat32 0"
| "zero_value (TArray n t) = VArray (replicate n (zero_value t))"
| "zero_value (TStruct fs) = VStruct (map (\<lambda>f. zero_value (snd f)) fs)"

section \<open>character.go\<close>

definition GuildcardEntry_t :: gotype where
  "GuildcardEntry_t = TStruct
     [(''Guildcard'', TUint32),
      (''Name'', TArray 24 TUint16),
      (''TeamName'', TArray 16 TUint16),
      (''Description'', TArray 88 TUint16),
      (''Reserved'', TUint8),
      (''Language'', TUint8),
      (''SectionID'', TUint8),
      (''CharClass'', TUint8),
      (''padding'', TUint32),
      (''Comment'', TArray 88 TUint16)]"

definition GuildcardData_t :: gotype where
  "GuildcardData_t = TStruct
     [(''Unknown'', TArray 0x114 TUint8),
      (''Blocked'', TArray 0x1DE8 TUint8),
      (''Unknown2'', TArray 0x78 TUint8),
      (''Entries'', TArray 104 GuildcardEntry_t),
      (''Unknown3'', TArray 0x1BC TUint8)]"

definition CharacterStats_t :: gotype where
  "CharacterStats_t = TStruct
     [(''ATP'', TUint16),
      (''MST'', TUint16),
      (''EVP'', TUint16),
      (''HP'', TUint16),
      (''DFP'', TUint16),
      (''TP'', TUint16),
      (''LCK'', TUint16),
      (''ATA'', TUint16)]"

definition CharacterInfo_t :: gotype where
  "CharacterInfo_t = TStruct
     [(''NameColorChksm'', TUint32),
      (''SectionID'', TUint8),
      (''CharClass'', TUint8),
      (''V2flags'', TUint8),
      (''Version'', TUint8),
      (''V1Flags'', TUint32),
      (''Costume'', TUint16),
      (''Skin'', TUint16),
      (''Face'', TUint16),
      (''Head'', TUint16),
      (''Hair'', TUint16),
      (''HairRed'', TUint16),
      (''HairGreen'', TUint16),
      (''HairBlue'', TUint16),
      (''PropX'', TFloat32),
      (''PropY'', TFloat32),
      (''Name'', TArray 16 TUint16)]"

definition Item_t :: gotype where
  "Item_t = TStruct
     [(''Equipped'', TUint32),
      (''Flags'', TUint32),
      (''Data'', TUint32),
      (''ItemID'', TUint32),
      (''Data2'', TUint32)]"

definition Inventory_t :: gotype where
  "Inventory_t = TStruct
     [(''NumItems'', TUint8),
      (''HPMatsUsed'', TUint8),
      (''TPMatsUsed'', TUint8),
      (''Language'', TUint8),
      (''Items'', TArray 30 Item_t)]"

definition BankItem_t :: gotype where
  "BankItem_t = TStruct
     [(''Data'', TUint32),
      (''ItemID'', TUint32),
      (''Data2'', TUint32),
      (''Amount'', TUint16),
      (''Flags'', TUint16)]"

definition Bank_t :: gotype where
  "Bank_t = TStruct
     [(''NumItems'', TUint32),
      (''Meseta'', TUint32),
      (''Items'', TArray 200 BankItem_t)]"

definition Character_t :: gotype where
  "Character_t = TStruct
     [(''CharacterStats'', CharacterStats_t),
      (''Unknown'', TArray 8 TUint8),
      (''Level'', TUint32),
      (''Exp'', TUint32),
      (''Meseta'', TUint32),
      (''GuildcardStr'', TArray 24 TUint8),
      (''NameColor'', TUint32),
      (''Model'', TUint8),
      (''Unused'', TArray 11 TUint8),
      (''Playtime'', TUint32),
      (''CharacterInfo'', CharacterInfo_t),
      (''Config'', TArray 232 TUint8),
      (''Techniques'', TArray 20 TUint8)]"

definition CharacterPreview_t :: gotype where
  "CharacterPreview_t = TStruct
     [(''Experience'', TUint32),
      (''Level'', TUint32),
      (''GuildcardStr'', TArray 16 TUint8),
      (''Unknown'', TArray 2 TUint32),
      (''NameColor'', TUint32),
      (''Model'', TUint8),
      (''Unused'', TArray 15 TUint8),
      (''CharacterInfo'', CharacterInfo_t),
      (''Playtime'', TUint32)]"

definition FullCharacter_t :: gotype where
  "FullCharacter_t = TStruct
     [(''Inventory'', Inventory_t),
      (''Character'', Character_t),
      (''Unknown'', TArray 16 TUint8),
      (''Options'', TUint32),
      (''QuestData1'', TArray 520 TUint8),
      (''Bank'', Bank_t),
      (''Guildcard'', TUint32),
      (''Name'', TArray 16 TUint16),
      (''TeamName'', TArray 16 TUint16),
      (''GuildcardDesc'', TArray 88 TUint16),
      (''Reserved1'', TUint8),
      (''Reserved2'', TUint8),
      (''SectionID'', TUint8),
      (''CharClass'', TUint8),
      (''Unknown2'', TUint32),
      (''SymbolChats'', TArray 1248 TUint8),
      (''Shortcuts'', TArray 2624 TUint8),
      (''Autoreply'', TArray 172 TUint16),
      (''Infoboard'', TArray 172 TUint16),
      (''Unknown3'', TArray 28 TUint8),
      (''ChallengeData'', TArray 320 TUint8),
      (''TechMenu'', TArray 40 TUint8),
      (''Unknown4'', TArray 44 TUint8),
      (''QuestData2'', TArray 88 TUint8),
      (''Unknown5'', TArray 276 TUint8),
      (''KeyConfig'', TArray 364 TUint8),
      (''JoystickConfig'', TArray 56 TUint8),
      (''Guildcard2'', TUint32),
      (''TeamID'', TUint32),
      (''TeamInfo'', TArray 8 TUint8),
      (''TeamPrivilege'', TUint16),
      (''Reserved3'', TUint16),
      (''TeamName2'', TArray 16 TUint16),
      (''TeamFlag'', TArray 2048 TUint8),
      (''TeamRewards'', TArray 2 TUint32)]"

section \<open>Encoding and decoding of records\<close>

text \<open>
  Modelled from the spec: the record encoder (\<open>util.BytesFromStruct\<close> of package
  \<open>libarchon/util\<close>, which \<open>packets.go\<close> imports and calls, is not among the source
  files). Following sections 4.1 and 4.2 of the specification, a record is encoded as the
  concatenation of its members in declared order, integers little-endian at their fixed
  width, arrays element after element, an embedded record flattened in place.
\<close>

fun encode :: "govalue \<Rightarrow> u8 list" where
  "encode (VUint8 w) = [w]"
| "encode (VUint16 w) = [ucast w, ucast (drop_bit 8 w)]"
| "encode (VUint32 w) = [ucast w, ucast (drop_bit 8 w), ucast (drop_bit 16 w), ucast (drop_bit 24 w)]"
| "encode (VFloat32 w) = [ucast w, ucast (drop_bit 8 w), ucast (drop_bit 16 w), ucast (drop_bit 24 w)]"
| "encode (VArray vs) = concat (map encode vs)"
| "encode (VStruct vs) = concat (map encode vs)"

text \<open>
  The one error of decoding, and the reassembly of little-endian integers from bytes.
\<close>

datatype decode_error = ShapeError

definition le16 :: "u8 \<Rightarrow> u8 \<Rightarrow> u16" where
  "le16 b0 b1 = ucast b0 OR push_bit 8 (ucast b1)"

definition le32 :: "u8 \<Rightarrow> u8 \<Rightarrow> u8 \<Rightarrow> u8 \<Rightarrow> u32" where
  "le32 b0 b1 b2 b3 =
     ucast b0 OR push_bit 8 (ucast b1) OR push_bit 16 (ucast b2) OR push_bit 24 (ucast b3)"

text \<open>
  Modelled from the spec: reading the members of a record or the elements of an array one
  after the other (part of the record decoder, which is not among the source files). Each
  reader takes its bytes from the front and leaves the rest to the next; the first one that
  fails makes the whole sequence fail.
\<close>

type_synonym reader = "u8 list \<Rightarrow> (govalue \<times> u8 list) option"

fun read_seq :: "reader list \<Rightarrow> u8 list \<Rightarrow> (govalue list \<times> u8 list) option" where
  "read_seq [] bs = Some ([], bs)"
| "read_seq (p # ps) bs =
     (case p bs of
        None \<Rightarrow> None
      | Some (v, r) \<Rightarrow>
          (case read_seq ps r of None \<Rightarrow> None | Some (vs, r') \<Rightarrow> Some (v # vs, r')))"

text \<open>
  Modelled from the spec: reading one value of a type from the front of a buffer (the
  record decoder, not among the source files). Following section 4.1 of the specification,
  decoding is the exact inverse of encoding: the members are read in declared order, each
  consuming its fixed width, and running out of bytes is a failure.
\<close>

fun read_value :: "gotype \<Rightarrow> u8 list \<Rightarrow> (govalue \<times> u8 list) option" where
  "read_value TUint8 bs = (case bs of b # r \<Rightarrow> Some (VUint8 b, r) | _ \<Rightarrow> None)"
| "read_value TUint16 bs =
     (case bs of b0 # b1 # r \<Rightarrow> Some (VUint16 (le16 b0 b1), r) | _ \<Rightarrow> None)"
| "read_value TUint32 bs =
     (case bs of b0 # b1 # b2 # b3 # r \<Rightarrow> Some (VUint32 (le32 b0 b1 b2 b3), r) | _ \<Rightarrow> None)"
| "read_value TFloat32 bs =
     (case bs of b0 # b1 # b2 # b3 # r \<Rightarrow> Some (VFloat32 (le32 b0 b1 b2 b3), r) | _ \<Rightarrow> None)"
| "read_value (TArray n t) bs =
     map_option (\<lambda>(vs, r). (VArray vs, r)) (read_seq (replicate n (read_value t)) bs)"
| "read_value (TStruct fs) bs =
     map_option (\<lambda>(vs, r). (VStruct vs, r)) (read_seq (map (\<lambda>f. read_value (snd f)) fs) bs)"

text \<open>
  Modelled from the spec: decoding a buffer as one record (the record decoder, not among
  the source files). Following section 7 of the specification, a buffer too short or too
  long for the record's declared size is a \<open>ShapeError\<close>, surfaced to the caller.
\<close>

definition decode :: "gotype \<Rightarrow> u8 list \<Rightarrow> decode_error + govalue" where
  "decode t bs =
     (case read_value t bs of
        None \<Rightarrow> Inl ShapeError
      | Some (v, rest) \<Rightarrow> if rest = [] then Inr v else Inl ShapeError)"

section \<open>packets.go\<close>

definition BBHeaderSize :: nat where "BBHeaderSize = 0x08"

definition WelcomeType :: nat where "WelcomeType = 0x03"
definition DisconnectType :: nat where "DisconnectType = 0x05"
definition LoginType :: nat where "LoginType = 0x93"

definition WelcomeSize :: nat where "WelcomeSize = 0xC8"

definition bbCopyright :: string where
  "bbCopyright =
     ''Phantasy Star Online Blue Burst Game Server. Copyright 1999-2004 SONICTEAM.''"

text \<open>
  Go's built-in \<open>copy(dst, src)\<close>: the first \<open>min (len dst) (len src)\<close> elements of
  \<open>dst\<close> are overwritten, the rest of \<open>dst\<close> stays.
\<close>

definition go_copy :: "'a list \<Rightarrow> 'a list \<Rightarrow> 'a list" where
  "go_copy dst src = take (length dst) src @ drop (length src) dst"

text \<open>
  The package-level slice \<open>copyrightBytes\<close> is made with 96 zero bytes, and \<open>init\<close>
  copies the copyright string into it. Nothing else writes to it.
\<close>

definition init :: "u8 list \<Rightarrow> u8 list" where
  "init cb = go_copy cb (map of_char bbCopyright)"

definition copyrightBytes :: "u8 list" where
  "copyrightBytes = init (replicate 96 0)"

record BBPktHeader =
  Size :: u16
  Type :: u16
  Padding :: u32

record WelcomePkt =
  Header :: BBPktHeader
  Copyright :: "u8 list"
  ServerVector :: "u8 list"
  ClientVector :: "u8 list"

definition BBPktHeader_t :: gotype where
  "BBPktHeader_t = TStruct
     [(''Size'', TUint16),
      (''Type'', TUint16),
      (''Padding'', TUint32)]"

definition WelcomePkt_t :: gotype where
  "WelcomePkt_t = TStruct
     [(''Header'', BBPktHeader_t),
      (''Copyright'', TArray 96 TUint8),
      (''ServerVector'', TArray 48 TUint8),
      (''ClientVector'', TArray 48 TUint8)]"

text \<open>\<open>new(WelcomePkt)\<close>: every field zero, the arrays at their declared lengths.\<close>

definition new_WelcomePkt :: WelcomePkt where
  "new_WelcomePkt =
     \<lparr>Header = \<lparr>Size = 0, Type = 0, Padding = 0\<rparr>,
      Copyright = replicate 96 0,
      ServerVector = replicate 48 0,
      ClientVector = replicate 48 0\<rparr>"

text \<open>What reflection sees of a packet: the field values in declaration order.\<close>

definition BBPktHeader_value :: "BBPktHeader \<Rightarrow> govalue" where
  "BBPktHeader_value h = VStruct [VUint16 (Size h), VUint16 (Type h), VUint32 (Padding h)]"

definition WelcomePkt_value :: "WelcomePkt \<Rightarrow> govalue" where
  "WelcomePkt_value p =
     VStruct [BBPktHeader_value (Header p),
              VArray (map VUint8 (Copyright p)),
              VArray (map VUint8 (ServerVector p)),
              VArray (map VUint8 (ClientVector p))]"

text \<open>
  Modelled from the spec: \<open>util.BytesFromStruct\<close>, absent from the source files, is the
  record encoder above applied to the struct that the pointer refers to.
\<close>

definition BytesFromStruct :: "govalue \<Rightarrow> u8 list" where
  "BytesFromStruct v = encode v"

text \<open>
  The connection of a client is the Go library's. Its \<open>Write\<close> returns a byte count and an
  error (\<open>None\<close> for nil); what it answers is a parameter of the model, and may depend on
  what was written before. The model records every slice handed to \<open>Write\<close>.
\<close>

record Conn =
  written :: "u8 list list"
  Write_result :: "u8 list list \<Rightarrow> u8 list \<Rightarrow> nat \<times> string option"

definition conn_Write :: "Conn \<Rightarrow> u8 list \<Rightarrow> (nat \<times> string option) \<times> Conn" where
  "conn_Write c p = (Write_result c (written c) p, c\<lparr>written := written c @ [p]\<rparr>)"

text \<open>The encryption context of one direction; only its vector is read here.\<close>

record PSOCrypt =
  Vector :: "u8 list"

record Client =
  conn :: Conn
  clientCrypt :: PSOCrypt
  serverCrypt :: PSOCrypt

text \<open>
  \<open>SendPacket\<close> slices the packet to \<open>length\<close> (a panic when the length is negative or
  beyond the slice, whose capacity is taken to be its length), writes it once, drops the
  byte count and returns \<open>-1\<close> when \<open>Write\<close> reported an error and \<open>0\<close> otherwise.
  The result comes with the client afterwards.
\<close>

definition SendPacket :: "Client \<Rightarrow> u8 list \<Rightarrow> int \<Rightarrow> (go_panic + int) \<times> Client" where
  "SendPacket client pkt len =
     (if len < 0 \<or> int (length pkt) < len then (Inl SliceBoundsOutOfRange, client)
      else
        (let (res, conn') = conn_Write (conn client) (take (nat len) pkt);
             client' = client\<lparr>conn := conn'\<rparr>
         in case snd res of
              Some err \<Rightarrow> (Inr (- 1), client')
            | None \<Rightarrow> (Inr 0, client')))"

text \<open>
  \<open>SendWelcome\<close> fills a fresh packet, serialises it and sends \<open>WelcomeSize\<close> bytes. The
  first argument is the content of the package-level \<open>copyrightBytes\<close>. The two prints to
  standard output are not modelled.
\<close>

definition SendWelcome :: "u8 list \<Rightarrow> Client \<Rightarrow> (go_panic + int) \<times> Client" where
  "SendWelcome cb client =
     (let pkt = new_WelcomePkt;
          pkt = pkt\<lparr>Header := (Header pkt)\<lparr>Size := of_nat WelcomeSize\<rparr>\<rparr>;
          pkt = pkt\<lparr>Header := (Header pkt)\<lparr>Type := of_nat WelcomeType\<rparr>\<rparr>;
          pkt = pkt\<lparr>Copyright := go_copy (Copyright pkt) cb\<rparr>;
          pkt = pkt\<lparr>ClientVector := go_copy (ClientVector pkt) (Vector (clientCrypt client))\<rparr>;
          pkt = pkt\<lparr>ServerVector := go_copy (ServerVector pkt) (Vector (serverCrypt client))\<rparr>;
          data = BytesFromStruct (WelcomePkt_value pkt)
      in SendPacket client data (int WelcomeSize))"

text \<open>The record types of the layer.\<close>

definition record_types :: "gotype list" where
  "record_types =
     [GuildcardEntry_t, GuildcardData_t, CharacterStats_t, CharacterInfo_t, Item_t,
      Inventory_t, BankItem_t, Bank_t, Character_t, CharacterPreview_t, FullCharacter_t,
      BBPktHeader_t, WelcomePkt_t]"

section \<open>Example inputs\<close>

text \<open>Concrete inputs on which the theorems below are exercised.\<close>

definition example_config :: configuration where
  "example_config =
     \<lparr>Hostname = '''', LoginPort = '''', CharacterPort = ''9000'', DBHost = ''db'', DBPort = ''3306'',
      DBName = ''archon'', DBUsername = ''u'', DBPassword = ''p'', Logfile = '''', LogLevel = 7,
      DebugMode = False, database = None\<rparr>"

definition example_item :: govalue where
  "example_item = VStruct [VUint32 1, VUint32 0x80000000, VUint32 0x01020304, VUint32 0x00010000, VUint32 0xFFFFFFFF]"

definition example_inventory :: govalue where
  "example_inventory =
     VStruct [VUint8 3, VUint8 0, VUint8 200, VUint8 1, VArray (replicate 30 example_item)]"

definition example_guildcard_entry :: govalue where
  "example_guildcard_entry =
     VStruct [VUint32 42000001, VArray (replicate 24 (VUint16 0x41)), VArray (replicate 16 (VUint16 0)),
              VArray (replicate 88 (VUint16 0x20)), VUint8 1, VUint8 0, VUint8 9, VUint8 0x0B,
              VUint32 0xDEADBEEF, VArray (replicate 88 (VUint16 0xFFFF))]"

definition example_guildcard_data :: govalue where
  "example_guildcard_data =
     VStruct [VArray (replicate 0x114 (VUint8 0xAB)), VArray (replicate 0x1DE8 (VUint8 1)),
              VArray (replicate 0x78 (VUint8 0xFF)), VArray (replicate 104 example_guildcard_entry),
              VArray (replicate 0x1BC (VUint8 7))]"

text \<open>
  Three transports that keep the contract of Go's \<open>Write\<close> (fewer bytes than given come
  with an error): one that takes everything, one that takes at most three bytes, one that
  fails.
\<close>

definition full_writer :: "u8 list list \<Rightarrow> u8 list \<Rightarrow> nat \<times> string option" where
  "full_writer history p = (length p, None)"

definition limited_writer :: "u8 list list \<Rightarrow> u8 list \<Rightarrow> nat \<times> string option" where
  "limited_writer history p =
     (if length p \<le> 3 then (length p, None) else (3, Some ''short write''))"

definition failing_writer :: "u8 list list \<Rightarrow> u8 list \<Rightarrow> nat \<times> string option" where
  "failing_writer history p = (0, Some ''broken pipe'')"

definition example_client :: Client where
  "example_client =
     \<lparr>conn = \<lparr>written = [], Write_result = full_writer\<rparr>,
      clientCrypt = \<lparr>Vector = map of_nat [1 ..< 49]\<rparr>,
      serverCrypt = \<lparr>Vector = map of_nat [101 ..< 149]\<rparr>\<rparr>"

definition limited_client :: Client where
  "limited_client = example_client\<lparr>conn := \<lparr>written = [], Write_result = limited_writer\<rparr>\<rparr>"

definition failing_client :: Client where
  "failing_client = example_client\<lparr>conn := \<lparr>written = [[1, 2]], Write_result = failing_writer\<rparr>\<rparr>"

section \<open>Auxiliary definitions\<close>

text \<open>
  The bytes that \<open>SendWelcome\<close> hands to \<open>SendPacket\<close>, as a function of the content of
  \<open>copyrightBytes\<close> and of the two vectors (proved below).
\<close>

definition welcome_data :: "u8 list \<Rightarrow> u8 list \<Rightarrow> u8 list \<Rightarrow> u8 list" where
  "welcome_data cb sv cv =
     [0xC8, 0, 0x03, 0, 0, 0, 0, 0] @ go_copy (replicate 96 0) cb
       @ go_copy (replicate 48 0) sv @ go_copy (replicate 48 0) cv"

section \<open>Properties of the configuration\<close>

lemma enforceDefaults_fields:
  "Hostname (enforceDefaults c) = (if Hostname c = '''' then ''127.0.0.1'' else Hostname c)"
  "LoginPort (enforceDefaults c) = (if LoginPort c = '''' then ''12000'' else LoginPort c)"
  "CharacterPort (enforceDefaults c) =
     (if CharacterPort c = '''' then ''12001'' else CharacterPort c)"
  "LogLevel (enforceDefaults c) = (if LogLevel c < 1 \<or> LogLevel c > 4 then 1 else LogLevel c)"
  by (simp_all add: enforceDefaults_def Let_def LogPriorityCritical_def LogPriorityLow_def)

lemma enforceDefaults_others:
  "DBHost (enforceDefaults c) = DBHost c"
  "DBPort (enforceDefaults c) = DBPort c"
  "DBName (enforceDefaults c) = DBName c"
  "DBUsername (enforceDefaults c) = DBUsername c"
  "DBPassword (enforceDefaults c) = DBPassword c"
  "Logfile (enforceDefaults c) = Logfile c"
  "DebugMode (enforceDefaults c) = DebugMode c"
  "database (enforceDefaults c) = database c"
  by (simp_all add: enforceDefaults_def Let_def)

lemma enforceDefaults_invariant: "defaults_enforced (enforceDefaults c)"
proof -
  have "1 \<le> LogLevel (enforceDefaults c) \<and> LogLevel (enforceDefaults c) \<le> 4"
    by (auto simp: enforceDefaults_fields not_less word_le_nat_alt word_less_nat_alt)
  then show ?thesis
    by (simp add: defaults_enforced_def enforceDefaults_fields)
qed

lemma HostnameBytes_loop_computes:
  assumes "length (cache :: u8 list) = 4" and "4 \<le> length parts"
  shows "HostnameBytes_loop parts [0, 1, 2, 3] cache =
     (None, [of_nat (fst (ParseUint_10_8 (parts ! 0))), of_nat (fst (ParseUint_10_8 (parts ! 1))),
             of_nat (fst (ParseUint_10_8 (parts ! 2))), of_nat (fst (ParseUint_10_8 (parts ! 3)))])"
proof -
  from assms(1) obtain w x y z where c: "cache = [w, x, y, z]"
    by (auto simp: numeral_eq_Suc length_Suc_conv)
  have "parts \<noteq> []" "Suc 0 < length parts" "2 < length parts" "3 < length parts"
    using assms(2) by auto
  then show ?thesis by (simp add: c)
qed

lemma HostnameBytes_loop_panics:
  assumes "length parts < 4"
  shows "fst (HostnameBytes_loop parts [0, 1, 2, 3] (cache :: u8 list)) = Some IndexOutOfRange"
  using assms by simp

section \<open>Properties of the record codec\<close>

lemma bit_u8_high [simp]: "\<not> bit (a :: u8) (8 + n)" "\<not> bit (a :: u8) (16 + n)" "\<not> bit (a :: u8) (24 + n)"
  by (auto dest: bit_imp_le_length)

lemma le16_split: "le16 (ucast w) (ucast (drop_bit 8 w)) = w"
  unfolding le16_def
proof (rule bit_word_eqI)
  fix n assume "n < LENGTH(16)"
  then show "bit (ucast (ucast w :: u8) OR push_bit 8 (ucast (ucast (drop_bit 8 w) :: u8)) :: u16) n = bit w n"
    by (cases "n < 8") (auto simp: bit_simps not_less)
qed

lemma le32_split: "le32 (ucast w) (ucast (drop_bit 8 w)) (ucast (drop_bit 16 w)) (ucast (drop_bit 24 w)) = w"
  unfolding le32_def
proof (rule bit_word_eqI)
  fix n assume n: "n < LENGTH(32)"
  consider "n < 8" | "8 \<le> n" "n < 16" | "16 \<le> n" "n < 24" | "24 \<le> n" by linarith
  then show "bit (ucast (ucast w :: u8) OR push_bit 8 (ucast (ucast (drop_bit 8 w) :: u8)) OR
      push_bit 16 (ucast (ucast (drop_bit 16 w) :: u8)) OR push_bit 24 (ucast (ucast (drop_bit 24 w) :: u8)) :: u32) n = bit w n"
    using n by cases (auto simp: bit_simps not_less)
qed

lemma le16_bytes: "ucast (le16 a b) = a" "ucast (drop_bit 8 (le16 a b)) = b"
  unfolding le16_def by (rule bit_word_eqI; auto simp: bit_simps)+

lemma le32_bytes: "ucast (le32 a b c d) = a" "ucast (drop_bit 8 (le32 a b c d)) = b"
   "ucast (drop_bit 16 (le32 a b c d)) = c" "ucast (drop_bit 24 (le32 a b c d)) = d"
  unfolding le32_def by (rule bit_word_eqI; auto simp: bit_simps)+

lemma sum_list_const: "(\<And>x. x \<in> set xs \<Longrightarrow> f x = c) \<Longrightarrow> sum_list (map f xs) = length xs * c"
  by (induction xs) auto

lemma sum_list_all2:
  "list_all2 (\<lambda>x y. f x = g y) xs ys \<Longrightarrow> sum_list (map f xs) = sum_list (map g ys)"
  by (induction rule: list_all2_induct) auto

lemma length_encode: "has_type v t \<Longrightarrow> length (encode v) = sizeof t"
proof (induction v t rule: has_type.induct)
  case (5 vs n t)
  then show ?case by (simp add: length_concat comp_def sum_list_const)
next
  case (6 vs fs)
  have "list_all2 (\<lambda>v f. has_type v (snd f)) vs fs" using "6.prems" by simp
  then have "list_all2 (\<lambda>v f. length (encode v) = sizeof (snd f)) vs fs"
    using "6.IH" by (auto simp: list_all2_conv_all_nth)
  then have "sum_list (map (\<lambda>v. length (encode v)) vs) = sum_list (map (\<lambda>f. sizeof (snd f)) fs)"
    by (rule sum_list_all2)
  then show ?case by (simp add: length_concat comp_def)
qed simp_all

lemma read_seq_encode:
  "list_all2 (\<lambda>p v. \<forall>r. p (encode v @ r) = Some (v, r)) ps vs \<Longrightarrow>
   read_seq ps (concat (map encode vs) @ r) = Some (vs, r)"
  by (induction arbitrary: r rule: list_all2_induct) auto

lemma read_value_encode: "has_type v t \<Longrightarrow> read_value t (encode v @ r) = Some (v, r)"
proof (induction v t arbitrary: r rule: has_type.induct)
  case (1 w)
  then show ?case by simp
next
  case (2 w)
  then show ?case by (simp add: le16_split)
next
  case (3 w)
  then show ?case by (simp add: le32_split)
next
  case (4 w)
  then show ?case by (simp add: le32_split)
next
  case (5 vs n t)
  have "list_all2 (\<lambda>p v. \<forall>r. p (encode v @ r) = Some (v, r)) (replicate n (read_value t)) vs"
    using 5 by (auto simp: list_all2_conv_all_nth)
  then show ?case by (simp add: read_seq_encode)
next
  case (6 vs fs)
  have tys: "list_all2 (\<lambda>v f. has_type v (snd f)) vs fs" using "6.prems" by simp
  have "list_all2 (\<lambda>p v. \<forall>r. p (encode v @ r) = Some (v, r)) (map (\<lambda>f. read_value (snd f)) fs) vs"
    using tys "6.IH" by (auto simp: list_all2_conv_all_nth)
  then show ?case by (simp add: read_seq_encode)
qed simp_all

lemma read_seq_sound:
  "read_seq ps bs = Some (vs, r) \<Longrightarrow>
   (\<And>p bs v r. p \<in> set ps \<Longrightarrow> p bs = Some (v, r) \<Longrightarrow> bs = encode v @ r) \<Longrightarrow>
   bs = concat (map encode vs) @ r"
proof (induction ps arbitrary: bs vs)
  case Nil
  then show ?case by simp
next
  case (Cons p ps)
  from Cons.prems(1) obtain v r1 vs' where
    p: "p bs = Some (v, r1)" and rest: "read_seq ps r1 = Some (vs', r)" and vs: "vs = v # vs'"
    by (auto split: option.splits)
  have "bs = encode v @ r1" using Cons.prems(2) [of p bs v r1] p by simp
  moreover have "r1 = concat (map encode vs') @ r"
  proof (rule Cons.IH [OF rest])
    fix q cs w s assume "q \<in> set ps" "q cs = Some (w, s)"
    then show "cs = encode w @ s" using Cons.prems(2) [of q cs w s] by simp
  qed
  ultimately show ?case using vs by simp
qed

lemma read_seq_results:
  "read_seq ps bs = Some (vs, r) \<Longrightarrow> list_all2 (\<lambda>p v. \<exists>bs r. p bs = Some (v, r)) ps vs"
proof (induction ps arbitrary: bs vs)
  case Nil
  then show ?case by simp
next
  case (Cons p ps)
  from Cons.prems obtain v r1 vs' where
    p: "p bs = Some (v, r1)" and rest: "read_seq ps r1 = Some (vs', r)" and vs: "vs = v # vs'"
    by (auto split: option.splits)
  show ?case using p Cons.IH [OF rest] vs by auto
qed

lemma read_value_sound:
  "read_value t bs = Some (v, r) \<Longrightarrow> has_type v t \<and> bs = encode v @ r"
proof (induction t arbitrary: bs v r rule: sizeof.induct)
  case 1
  then show ?case by (auto split: list.splits)
next
  case 2
  then show ?case by (auto split: list.splits simp: le16_bytes)
next
  case 3
  then show ?case by (auto split: list.splits simp: le32_bytes)
next
  case 4
  then show ?case by (auto split: list.splits simp: le32_bytes)
next
  case (5 n t)
  from "5.prems" obtain vs where
    rs: "read_seq (replicate n (read_value t)) bs = Some (vs, r)" and v: "v = VArray vs"
    by auto
  have "list_all2 (\<lambda>p v. \<exists>bs r. p bs = Some (v, r)) (replicate n (read_value t)) vs"
    using read_seq_results [OF rs] .
  then have len: "length vs = n" and each: "\<forall>v \<in> set vs. \<exists>bs r. read_value t bs = Some (v, r)"
    by (auto simp: list_all2_conv_all_nth in_set_conv_nth)
  have "\<forall>v \<in> set vs. has_type v t" using each "5.IH" by blast
  moreover have "bs = concat (map encode vs) @ r"
  proof (rule read_seq_sound [OF rs])
    fix q cs w s assume "q \<in> set (replicate n (read_value t))" "q cs = Some (w, s)"
    then have "read_value t cs = Some (w, s)" by auto
    then show "cs = encode w @ s" using "5.IH" by blast
  qed
  ultimately show ?case using v len by simp
next
  case (6 fs)
  from "6.prems" obtain vs where
    rs: "read_seq (map (\<lambda>f. read_value (snd f)) fs) bs = Some (vs, r)" and v: "v = VStruct vs"
    by auto
  have res: "list_all2 (\<lambda>p v. \<exists>bs r. p bs = Some (v, r)) (map (\<lambda>f. read_value (snd f)) fs) vs"
    using read_seq_results [OF rs] .
  have "list_all2 (\<lambda>v f. has_type v (snd f)) vs fs"
    unfolding list_all2_conv_all_nth
  proof (intro conjI allI impI)
    show "length vs = length fs" using res by (simp add: list_all2_conv_all_nth)
  next
    fix i assume i: "i < length vs"
    then have i': "i < length fs" using res by (simp add: list_all2_conv_all_nth)
    from res i i' obtain bs' r' where "read_value (snd (fs ! i)) bs' = Some (vs ! i, r')"
      by (auto simp: list_all2_conv_all_nth)
    moreover have "fs ! i \<in> set fs" using i' by simp
    ultimately show "has_type (vs ! i) (snd (fs ! i))" using "6.IH" by blast
  qed
  moreover have "bs = concat (map encode vs) @ r"
  proof (rule read_seq_sound [OF rs])
    fix q cs w s assume "q \<in> set (map (\<lambda>f. read_value (snd f)) fs)" and qr: "q cs = Some (w, s)"
    then obtain f where "f \<in> set fs" "q = read_value (snd f)" by auto
    then show "cs = encode w @ s" using "6.IH" qr by blast
  qed
  ultimately show ?case using v by simp
qed

lemma read_value_short: "length bs < sizeof t \<Longrightarrow> read_value t bs = None"
proof (rule ccontr)
  assume short: "length bs < sizeof t" and "read_value t bs \<noteq> None"
  then obtain v r where "read_value t bs = Some (v, r)" by auto
  then have "has_type v t" "bs = encode v @ r" using read_value_sound by blast+
  then have "length bs = sizeof t + length r" using length_encode by fastforce
  then show False using short by simp
qed

lemmas record_type_defs =
  GuildcardEntry_t_def GuildcardData_t_def CharacterStats_t_def CharacterInfo_t_def Item_t_def
  Inventory_t_def BankItem_t_def Bank_t_def Character_t_def CharacterPreview_t_def
  FullCharacter_t_def BBPktHeader_t_def WelcomePkt_t_def

lemma sizeof_records:
  "sizeof GuildcardEntry_t = 444" "sizeof GuildcardData_t = 54672" "sizeof CharacterStats_t = 16"
  "sizeof CharacterInfo_t = 68" "sizeof Item_t = 20" "sizeof Inventory_t = 604"
  "sizeof BankItem_t = 16" "sizeof Bank_t = 3208" "sizeof Character_t = 400"
  "sizeof CharacterPreview_t = 124" "sizeof FullCharacter_t = 12888" "sizeof BBPktHeader_t = 8"
  "sizeof WelcomePkt_t = 200"
  by (simp_all add: record_type_defs)

lemma decode_encode: "has_type v t \<Longrightarrow> decode t (encode v) = Inr v"
  using read_value_encode [of v t "[]"] by (simp add: decode_def)

lemma decode_short: "length bs < sizeof t \<Longrightarrow> decode t bs = Inl ShapeError"
  by (simp add: decode_def read_value_short)

lemma decode_exact: "decode t bs = Inr v \<Longrightarrow> has_type v t \<and> encode v = bs \<and> length bs = sizeof t"
proof -
  assume d: "decode t bs = Inr v"
  then have "read_value t bs = Some (v, [])"
    by (auto simp: decode_def split: option.splits if_splits)
  then have "has_type v t" "bs = encode v" using read_value_sound by fastforce+
  then show ?thesis using length_encode by auto
qed

lemma offset_from_nth:
  "distinct (map fst fs) \<Longrightarrow> i < length fs \<Longrightarrow>
   offset_from off fs (fst (fs ! i)) = Some (off + sum_list (map (\<lambda>f. sizeof (snd f)) (take i fs)))"
proof (induction fs arbitrary: off i)
  case Nil
  then show ?case by simp
next
  case (Cons f fs)
  show ?case
  proof (cases i)
    case 0
    then show ?thesis by simp
  next
    case (Suc j)
    then have j: "j < length fs" using Cons.prems by simp
    then have "fst (fs ! j) \<in> set (map fst fs)" by (metis length_map nth_map nth_mem)
    moreover have "fst f \<notin> set (map fst fs)" using Cons.prems(1) by simp
    ultimately have "fst f \<noteq> fst (fs ! j)" by metis
    moreover have "distinct (map fst fs)" using Cons.prems(1) by simp
    then have "offset_from (off + sizeof (snd f)) fs (fst (fs ! j)) =
        Some (off + sizeof (snd f) + sum_list (map (\<lambda>f. sizeof (snd f)) (take j fs)))"
      using Cons.IH [of j] j by simp
    ultimately show ?thesis using Suc by simp
  qed
qed

lemma distinct_members: "t \<in> set record_types \<Longrightarrow> distinct (map fst (members t))"
  by (auto simp: record_types_def record_type_defs)

section \<open>Properties of the packet functions\<close>

lemma length_bbCopyright: "length bbCopyright = 75"
  by (simp add: bbCopyright_def)

lemma copyrightBytes_eq: "copyrightBytes = map of_char bbCopyright @ replicate 21 0"
  by (simp add: copyrightBytes_def init_def go_copy_def length_bbCopyright)

lemma encode_bytes: "concat (map (encode \<circ> VUint8) bs) = bs"
  by (induction bs) simp_all

lemma length_go_copy: "length (go_copy dst src) = length dst"
  by (simp add: go_copy_def)

lemma go_copy_same_length: "length src = length dst \<Longrightarrow> go_copy dst src = src"
  by (simp add: go_copy_def)

lemma SendWelcome_eq:
  "SendWelcome cb client =
     SendPacket client
       (welcome_data cb (Vector (serverCrypt client)) (Vector (clientCrypt client))) 200"
  by (simp add: SendWelcome_def Let_def new_WelcomePkt_def WelcomeSize_def WelcomeType_def
      BytesFromStruct_def WelcomePkt_value_def BBPktHeader_value_def encode_bytes welcome_data_def)

lemma length_welcome_data: "length (welcome_data cb sv cv) = 200"
  by (simp add: welcome_data_def length_go_copy)

lemma welcome_data_full:
  "length sv = 48 \<Longrightarrow> length cv = 48 \<Longrightarrow>
   welcome_data copyrightBytes sv cv =
     [0xC8, 0, 0x03, 0, 0, 0, 0, 0] @ map of_char bbCopyright @ replicate 21 0 @ sv @ cv"
  by (simp add: welcome_data_def go_copy_same_length copyrightBytes_eq length_bbCopyright)

lemma SendPacket_in_range:
  assumes "0 \<le> len" "len \<le> int (length pkt)"
  shows "fst (SendPacket client pkt len) =
           Inr (if snd (Write_result (conn client) (written (conn client)) (take (nat len) pkt)) = None
                then 0 else - 1)"
    and "snd (SendPacket client pkt len) =
           client\<lparr>conn := (conn client)\<lparr>written := written (conn client) @ [take (nat len) pkt]\<rparr>\<rparr>"
  using assms by (auto simp: SendPacket_def conn_Write_def Let_def split: option.splits)

lemma SendWelcome_result:
  "fst (SendWelcome cb client) =
     Inr (if snd (Write_result (conn client) (written (conn client))
                 (welcome_data cb (Vector (serverCrypt client)) (Vector (clientCrypt client)))) = None
          then 0 else - 1)"
  "snd (SendWelcome cb client) =
     client\<lparr>conn := (conn client)\<lparr>written := written (conn client) @
       [welcome_data cb (Vector (serverCrypt client)) (Vector (clientCrypt client))]\<rparr>\<rparr>"
  using SendPacket_in_range [of 200 "welcome_data cb (Vector (serverCrypt client)) (Vector (clientCrypt client))" client]
  by (simp_all add: SendWelcome_eq length_welcome_data)

lemma encode_member:
  "list_all2 (\<lambda>v f. has_type v (snd f)) vs fs \<Longrightarrow> i < length fs \<Longrightarrow>
   take (sizeof (snd (fs ! i)))
     (drop (sum_list (map (\<lambda>f. sizeof (snd f)) (take i fs))) (concat (map encode vs))) =
   encode (vs ! i)"
proof (induction arbitrary: i rule: list_all2_induct)
  case Nil
  then show ?case by simp
next
  case (Cons v vs f fs)
  have l: "length (encode v) = sizeof (snd f)" using Cons.hyps(1) by (rule length_encode)
  show ?case
  proof (cases i)
    case 0
    then show ?thesis using l by simp
  next
    case (Suc j)
    then have "j < length fs" using Cons.prems by simp
    then show ?thesis using Cons.IH [of j] Suc l by simp
  qed
qed


section \<open>Claims about the configuration\<close>

text \<open>
  Claim C7. With the hostname \<open>127.0.0.1\<close> configured, the first call of
  \<open>HostnameBytes\<close> (on the all-zero array the process starts with) returns the bytes
  127, 0, 0, 1 and leaves them in the package-level array, and a second call returns the
  same bytes. In general: while the first byte of the array is the sentinel 0, a call
  derives the four bytes from the configured hostname (the values \<open>ParseUint\<close> gives for
  its first four dot-separated parts), stores them and returns them, and panics on a
  hostname with fewer than four parts; once the first byte is not 0, every later call
  returns the stored array as it is, whatever the configuration says.
\<close>

theorem HostnameBytes_cached:
  "HostnameBytes (c\<lparr>Hostname := ''127.0.0.1''\<rparr>) cachedHostBytes_init = (Inr [127, 0, 0, 1], [127, 0, 0, 1])
   \<and> HostnameBytes (c\<lparr>Hostname := ''127.0.0.1''\<rparr>) [127, 0, 0, 1] = (Inr [127, 0, 0, 1], [127, 0, 0, 1])
   \<and> (\<forall>c' cache. cache ! 0 \<noteq> 0 \<longrightarrow> HostnameBytes c' cache = (Inr cache, cache))
   \<and> (\<forall>c' cache parts bytes.
         length cache = 4 \<longrightarrow> cache ! 0 = 0 \<longrightarrow>
         parts = Split (Hostname c') (CHR ''.'') \<longrightarrow> 4 \<le> length parts \<longrightarrow>
         bytes = [of_nat (fst (ParseUint_10_8 (parts ! 0))), of_nat (fst (ParseUint_10_8 (parts ! 1))),
                  of_nat (fst (ParseUint_10_8 (parts ! 2))), of_nat (fst (ParseUint_10_8 (parts ! 3)))] \<longrightarrow>
         HostnameBytes c' cache = (Inr bytes, bytes)
         \<and> (bytes ! 0 \<noteq> 0 \<longrightarrow> (\<forall>c''. HostnameBytes c'' (snd (HostnameBytes c' cache)) = (Inr bytes, bytes))))
   \<and> (\<forall>c' cache. cache ! 0 = 0 \<longrightarrow> length (Split (Hostname c') (CHR ''.'')) < 4 \<longrightarrow>
         fst (HostnameBytes c' cache) = Inl IndexOutOfRange)"
proof -
  have hit: "\<forall>c' cache. cache ! 0 \<noteq> 0 \<longrightarrow> HostnameBytes c' cache = (Inr cache, cache)"
    by (simp add: HostnameBytes_def)
  have miss: "\<forall>c' cache parts bytes.
         length cache = 4 \<longrightarrow> cache ! 0 = 0 \<longrightarrow>
         parts = Split (Hostname c') (CHR ''.'') \<longrightarrow> 4 \<le> length parts \<longrightarrow>
         bytes = [of_nat (fst (ParseUint_10_8 (parts ! 0))), of_nat (fst (ParseUint_10_8 (parts ! 1))),
                  of_nat (fst (ParseUint_10_8 (parts ! 2))), of_nat (fst (ParseUint_10_8 (parts ! 3)))] \<longrightarrow>
         HostnameBytes c' cache = (Inr bytes, bytes)
         \<and> (bytes ! 0 \<noteq> 0 \<longrightarrow> (\<forall>c''. HostnameBytes c'' (snd (HostnameBytes c' cache)) = (Inr bytes, bytes)))"
  proof (intro allI impI)
    fix c' :: configuration and cache :: "u8 list" and parts :: "string list" and bytes :: "u8 list"
    assume a: "length cache = 4" "cache ! 0 = 0" "parts = Split (Hostname c') (CHR ''.'')"
      "4 \<le> length parts"
      "bytes = [of_nat (fst (ParseUint_10_8 (parts ! 0))), of_nat (fst (ParseUint_10_8 (parts ! 1))),
                  of_nat (fst (ParseUint_10_8 (parts ! 2))), of_nat (fst (ParseUint_10_8 (parts ! 3)))]"
    have "HostnameBytes_loop parts [0, 1, 2, 3] cache = (None, bytes)"
      using HostnameBytes_loop_computes [OF a(1) a(4)] a(5) by simp
    then have first: "HostnameBytes c' cache = (Inr bytes, bytes)"
      using a(2,3) by (simp add: HostnameBytes_def)
    moreover have "bytes ! 0 \<noteq> 0 \<longrightarrow> (\<forall>c''. HostnameBytes c'' (snd (HostnameBytes c' cache)) = (Inr bytes, bytes))"
      using first hit by simp
    ultimately show "HostnameBytes c' cache = (Inr bytes, bytes)
         \<and> (bytes ! 0 \<noteq> 0 \<longrightarrow> (\<forall>c''. HostnameBytes c'' (snd (HostnameBytes c' cache)) = (Inr bytes, bytes)))"
      by blast
  qed
  have panic: "\<forall>c' cache. cache ! 0 = 0 \<longrightarrow> length (Split (Hostname c') (CHR ''.'')) < 4 \<longrightarrow>
         fst (HostnameBytes c' cache) = Inl IndexOutOfRange"
  proof (intro allI impI)
    fix c' :: configuration and cache :: "u8 list"
    assume z: "cache ! 0 = 0" and s: "length (Split (Hostname c') (CHR ''.'')) < 4"
    obtain p cache' where l: "HostnameBytes_loop (Split (Hostname c') (CHR ''.'')) [0, 1, 2, 3] cache = (p, cache')"
      by (cases "HostnameBytes_loop (Split (Hostname c') (CHR ''.'')) [0, 1, 2, 3] cache")
    then have "p = Some IndexOutOfRange" using HostnameBytes_loop_panics [OF s, of cache] by simp
    then show "fst (HostnameBytes c' cache) = Inl IndexOutOfRange"
      using z l by (simp add: HostnameBytes_def)
  qed
  have conc: "HostnameBytes (c\<lparr>Hostname := ''127.0.0.1''\<rparr>) cachedHostBytes_init = (Inr [127, 0, 0, 1], [127, 0, 0, 1])"
    "HostnameBytes (c\<lparr>Hostname := ''127.0.0.1''\<rparr>) [127, 0, 0, 1] = (Inr [127, 0, 0, 1], [127, 0, 0, 1])"
    by (simp_all add: HostnameBytes_def cachedHostBytes_init_def ParseUint_10_8_def Let_def)
  show ?thesis using conc hit miss panic by blast
qed

text \<open>
  Other hostnames on the all-zero array: an address, an address with a part out of range
  and a part that is no number, and a name with no dot; and a second call on a filled
  array.
\<close>

theorem HostnameBytes_cached_witness:
  "length cachedHostBytes_init = 4 \<and> cachedHostBytes_init ! 0 = 0
   \<and> Split ''192.168.0.9'' (CHR ''.'') = [''192'', ''168'', ''0'', ''9'']
   \<and> HostnameBytes (example_config\<lparr>Hostname := ''192.168.0.9''\<rparr>) cachedHostBytes_init
       = (Inr [192, 168, 0, 9], [192, 168, 0, 9])
   \<and> HostnameBytes example_config [192, 168, 0, 9] = (Inr [192, 168, 0, 9], [192, 168, 0, 9])
   \<and> HostnameBytes (example_config\<lparr>Hostname := ''10.300.x.1''\<rparr>) cachedHostBytes_init
       = (Inr [10, 255, 0, 1], [10, 255, 0, 1])
   \<and> HostnameBytes (example_config\<lparr>Hostname := ''127.0.0.1''\<rparr>) cachedHostBytes_init
       = (Inr [127, 0, 0, 1], [127, 0, 0, 1])
   \<and> length (Split ''localhost'' (CHR ''.'')) < 4
   \<and> fst (HostnameBytes (example_config\<lparr>Hostname := ''localhost''\<rparr>) cachedHostBytes_init)
       = Inl IndexOutOfRange"
  using HostnameBytes_cached [of example_config]
  by (simp add: HostnameBytes_def cachedHostBytes_init_def ParseUint_10_8_def Let_def)

text \<open>
  Claim C9. \<open>Database\<close> on a configuration whose handle is nil panics with the
  \<open>ServerError\<close> for an uninitialized database; on a configuration with a handle it
  returns that handle.
\<close>

theorem Database_panics_when_uninitialized:
  "(database config = None \<longrightarrow>
      Database config = Inl (ServerError ''Attempt to reference uninitialized database''))
   \<and> (\<forall>db. database config = Some db \<longrightarrow> Database config = Inr db)"
  by (simp add: Database_def)

text \<open>Both branches on the example configuration, without and with a handle.\<close>

theorem Database_panics_when_uninitialized_witness:
  "database example_config = None
   \<and> Database example_config = Inl (ServerError ''Attempt to reference uninitialized database'')
   \<and> database (example_config\<lparr>database := Some (DBHandle 1)\<rparr>) = Some (DBHandle 1)
   \<and> Database (example_config\<lparr>database := Some (DBHandle 1)\<rparr>) = Inr (DBHandle 1)"
  using Database_panics_when_uninitialized [of example_config]
    Database_panics_when_uninitialized [of "example_config\<lparr>database := Some (DBHandle 1)\<rparr>"]
  by (simp add: example_config_def)

text \<open>
  Claim C10. After \<open>enforceDefaults\<close> the host name and the two ports are not empty (an
  empty one is replaced by \<open>127.0.0.1\<close>, \<open>12000\<close>, \<open>12001\<close>), the log level lies in
  1..4 (any other value is replaced by 1), and every other field is as before; the same
  invariant holds after every \<open>InitFromFile\<close> that returns no error.
\<close>

theorem enforceDefaults_establishes_invariant:
  "defaults_enforced (enforceDefaults c)
   \<and> Hostname (enforceDefaults c) = (if Hostname c = '''' then ''127.0.0.1'' else Hostname c)
   \<and> LoginPort (enforceDefaults c) = (if LoginPort c = '''' then ''12000'' else LoginPort c)
   \<and> CharacterPort (enforceDefaults c) =
       (if CharacterPort c = '''' then ''12001'' else CharacterPort c)
   \<and> LogLevel (enforceDefaults c) = (if 1 \<le> LogLevel c \<and> LogLevel c \<le> 4 then LogLevel c else 1)
   \<and> DBHost (enforceDefaults c) = DBHost c
   \<and> DBPort (enforceDefaults c) = DBPort c
   \<and> DBName (enforceDefaults c) = DBName c
   \<and> DBUsername (enforceDefaults c) = DBUsername c
   \<and> DBPassword (enforceDefaults c) = DBPassword c
   \<and> Logfile (enforceDefaults c) = Logfile c
   \<and> DebugMode (enforceDefaults c) = DebugMode c
   \<and> database (enforceDefaults c) = database c
   \<and> (\<forall>ReadFile Unmarshal fileName c'.
         InitFromFile ReadFile Unmarshal c fileName = (None, c') \<longrightarrow> defaults_enforced c')"
proof -
  have init: "\<forall>ReadFile Unmarshal fileName c'.
         InitFromFile ReadFile Unmarshal c fileName = (None, c') \<longrightarrow> defaults_enforced c'"
    by (auto simp: InitFromFile_def enforceDefaults_invariant split: sum.splits)
  have lvl: "LogLevel (enforceDefaults c) = (if 1 \<le> LogLevel c \<and> LogLevel c \<le> 4 then LogLevel c else 1)"
    by (auto simp: enforceDefaults_fields not_le)
  show ?thesis
    using init lvl by (simp add: enforceDefaults_invariant enforceDefaults_fields enforceDefaults_others)
qed

text \<open>
  The example configuration has an empty host name and login port and the log level 7;
  its character port is kept.
\<close>

theorem enforceDefaults_establishes_invariant_witness:
  "InitFromFile (\<lambda>name. Inr []) (\<lambda>data c. c) example_config ''login_config.json''
     = (None, enforceDefaults example_config)
   \<and> defaults_enforced (enforceDefaults example_config)
   \<and> enforceDefaults example_config =
       example_config\<lparr>Hostname := ''127.0.0.1'', LoginPort := ''12000'', LogLevel := 1\<rparr>"
  using enforceDefaults_establishes_invariant [of example_config]
  by (simp add: example_config_def InitFromFile_def enforceDefaults_def Let_def
      LogPriorityCritical_def LogPriorityLow_def)

section \<open>Claims about the record layout\<close>

text \<open>
  Claim C2. In \<open>FullCharacter\<close> the offset of every member is the sum of the sizes of the
  members declared before it; the \<open>Bank\<close> member comes right after \<open>Inventory\<close> (604
  bytes), \<open>Character\<close> (400 bytes) and the gap of \<open>Unknown\<close>, \<open>Options\<close> and
  \<open>QuestData1\<close> (16 + 4 + 520 = 540 bytes), at offset 1544 of the packed layout.
\<close>

theorem FullCharacter_Bank_offset:
  "offsetof FullCharacter_t ''Bank'' = Some 1544
   \<and> sizeof Inventory_t = 604
   \<and> sizeof Character_t = 400
   \<and> sizeof (TArray 16 TUint8) + sizeof TUint32 + sizeof (TArray 520 TUint8) = 540
   \<and> take 6 (members FullCharacter_t) =
       [(''Inventory'', Inventory_t), (''Character'', Character_t), (''Unknown'', TArray 16 TUint8),
        (''Options'', TUint32), (''QuestData1'', TArray 520 TUint8), (''Bank'', Bank_t)]
   \<and> (\<forall>i. i < length (members FullCharacter_t) \<longrightarrow>
         offsetof FullCharacter_t (fst (members FullCharacter_t ! i)) =
           Some (sum_list (map (\<lambda>f. sizeof (snd f)) (take i (members FullCharacter_t)))))"
proof -
  have "FullCharacter_t \<in> set record_types" by (simp add: record_types_def)
  then have d: "distinct (map fst (members FullCharacter_t))" by (rule distinct_members)
  have all: "\<forall>i. i < length (members FullCharacter_t) \<longrightarrow>
         offsetof FullCharacter_t (fst (members FullCharacter_t ! i)) =
           Some (sum_list (map (\<lambda>f. sizeof (snd f)) (take i (members FullCharacter_t))))"
    using offset_from_nth [OF d, of _ 0] by (simp add: offsetof_def)
  have bank: "offsetof FullCharacter_t ''Bank'' = Some 1544"
    by (simp add: offsetof_def FullCharacter_t_def sizeof_records)
  have pre: "take 6 (members FullCharacter_t) =
       [(''Inventory'', Inventory_t), (''Character'', Character_t), (''Unknown'', TArray 16 TUint8),
        (''Options'', TUint32), (''QuestData1'', TArray 520 TUint8), (''Bank'', Bank_t)]"
    by (simp add: FullCharacter_t_def)
  show ?thesis using all bank pre by (simp add: sizeof_records)
qed

text \<open>The sixth member (index 5) is \<open>Bank\<close>, and the five before it add up to 1544.\<close>

theorem FullCharacter_Bank_offset_witness:
  "(5 :: nat) < length (members FullCharacter_t)
   \<and> members FullCharacter_t ! 5 = (''Bank'', Bank_t)
   \<and> offsetof FullCharacter_t ''Bank'' = Some (604 + 400 + (16 + 4 + 520))
   \<and> sum_list (map (\<lambda>f. sizeof (snd f)) (take 5 (members FullCharacter_t))) = 1544"
proof -
  have n: "(5 :: nat) < length (members FullCharacter_t)" by (simp add: FullCharacter_t_def)
  have b: "members FullCharacter_t ! 5 = (''Bank'', Bank_t)" by (simp add: FullCharacter_t_def)
  from FullCharacter_Bank_offset have
    "offsetof FullCharacter_t (fst (members FullCharacter_t ! 5)) =
       Some (sum_list (map (\<lambda>f. sizeof (snd f)) (take 5 (members FullCharacter_t))))"
    and "offsetof FullCharacter_t ''Bank'' = Some 1544"
    using n by blast+
  then show ?thesis using n b by simp
qed

section \<open>Claims about the record codec\<close>

text \<open>
  Claim C5. Encoding a valid value of any record type of the layer gives exactly as many
  bytes as the packed size of its declaration (the sizes are listed in the order of
  \<open>record_types\<close>); an \<open>Inventory\<close> encodes to 4 + 30 * 20 = 604 bytes whatever its
  \<open>NumItems\<close>, its counters and the content of its 30 items are.
\<close>

theorem encode_fixed_size:
  "(t \<in> set record_types \<longrightarrow> has_type v t \<longrightarrow> length (encode v) = sizeof t)
   \<and> map sizeof record_types = [444, 54672, 16, 68, 20, 604, 16, 3208, 400, 124, 12888, 8, 200]
   \<and> sizeof Inventory_t = 4 + 30 * sizeof Item_t
   \<and> (length items = 30 \<longrightarrow> (\<forall>item \<in> set items. has_type item Item_t) \<longrightarrow>
        length (encode (VStruct [VUint8 numItems, VUint8 hpMats, VUint8 tpMats, VUint8 language,
                                 VArray items])) = 604)"
proof -
  have "length items = 30 \<longrightarrow> (\<forall>item \<in> set items. has_type item Item_t) \<longrightarrow>
        length (encode (VStruct [VUint8 numItems, VUint8 hpMats, VUint8 tpMats, VUint8 language,
                                 VArray items])) = 604"
  proof (intro impI)
    assume "length items = 30" "\<forall>item \<in> set items. has_type item Item_t"
    then have "has_type (VStruct [VUint8 numItems, VUint8 hpMats, VUint8 tpMats, VUint8 language,
                                 VArray items]) Inventory_t"
      by (simp add: Inventory_t_def)
    then show "length (encode (VStruct [VUint8 numItems, VUint8 hpMats, VUint8 tpMats, VUint8 language,
                                 VArray items])) = 604"
      using length_encode sizeof_records(6) by metis
  qed
  moreover have "map sizeof record_types = [444, 54672, 16, 68, 20, 604, 16, 3208, 400, 124, 12888, 8, 200]"
    by (simp add: record_types_def sizeof_records)
  moreover have "sizeof Inventory_t = 4 + 30 * sizeof Item_t"
    by (simp add: sizeof_records)
  ultimately show ?thesis using length_encode by blast
qed

text \<open>An inventory that says it holds 3 items, with all 30 slots filled.\<close>

theorem encode_fixed_size_witness:
  "Inventory_t \<in> set record_types
   \<and> has_type example_inventory Inventory_t
   \<and> length (encode example_inventory) = sizeof Inventory_t
   \<and> sizeof Inventory_t = 604"
proof -
  have m: "Inventory_t \<in> set record_types" by (simp add: record_types_def)
  have h: "has_type example_inventory Inventory_t"
    by (simp add: example_inventory_def example_item_def Inventory_t_def Item_t_def)
  have "length (encode example_inventory) = sizeof Inventory_t"
    using encode_fixed_size [of Inventory_t example_inventory] m h by blast
  then show ?thesis using m h by (simp add: sizeof_records)
qed

text \<open>
  Claim C3. For every valid value of every record type of the layer, among them
  \<open>GuildcardData\<close> and \<open>FullCharacter\<close> with their unidentified byte ranges, decoding
  the encoding gives the value back, every field and every opaque byte as it was.
\<close>

theorem decode_encode_roundtrip:
  "(t \<in> set record_types \<longrightarrow> has_type v t \<longrightarrow> decode t (encode v) = Inr v)
   \<and> (has_type g GuildcardData_t \<longrightarrow> decode GuildcardData_t (encode g) = Inr g)
   \<and> (has_type f FullCharacter_t \<longrightarrow> decode FullCharacter_t (encode f) = Inr f)"
  by (simp add: decode_encode)

text \<open>
  A guildcard chunk whose unidentified ranges, and the unexported padding word of whose
  entries, are not zero.
\<close>

theorem decode_encode_roundtrip_witness:
  "GuildcardData_t \<in> set record_types
   \<and> has_type example_guildcard_data GuildcardData_t
   \<and> decode GuildcardData_t (encode example_guildcard_data) = Inr example_guildcard_data"
proof -
  have m: "GuildcardData_t \<in> set record_types" by (simp add: record_types_def)
  have h: "has_type example_guildcard_data GuildcardData_t"
    by (simp add: example_guildcard_data_def example_guildcard_entry_def GuildcardData_t_def
        GuildcardEntry_t_def)
  show ?thesis
    using decode_encode_roundtrip [of GuildcardData_t example_guildcard_data] m h by blast
qed

text \<open>
  Claim C8. Decoding at any record type rejects a buffer shorter than the record's size
  with a \<open>ShapeError\<close>; and a decode that succeeds has consumed a buffer of exactly the
  record's size, all of which is accounted for by the value returned: it neither
  truncates nor goes on with part of the input.
\<close>

theorem decode_rejects_short_input:
  "(t \<in> set record_types \<longrightarrow> length bs < sizeof t \<longrightarrow> decode t bs = Inl ShapeError)
   \<and> (t \<in> set record_types \<longrightarrow> decode t bs = Inr v \<longrightarrow>
        length bs = sizeof t \<and> has_type v t \<and> encode v = bs)"
  using decode_short decode_exact by blast

text \<open>Nineteen bytes for a 20-byte \<open>Item\<close> are rejected; the 20 bytes of an item decode.\<close>

theorem decode_rejects_short_input_witness:
  "Item_t \<in> set record_types
   \<and> length (replicate 19 (0 :: u8)) < sizeof Item_t
   \<and> decode Item_t (replicate 19 0) = Inl ShapeError
   \<and> decode Item_t (encode example_item) = Inr example_item
   \<and> length (encode example_item) = sizeof Item_t"
proof -
  have m: "Item_t \<in> set record_types" by (simp add: record_types_def)
  have s: "length (replicate 19 (0 :: u8)) < sizeof Item_t" by (simp add: sizeof_records)
  have h: "has_type example_item Item_t" by (simp add: example_item_def Item_t_def)
  have d: "decode Item_t (encode example_item) = Inr example_item" using h by (rule decode_encode)
  show ?thesis
    using decode_rejects_short_input [of Item_t "replicate 19 0"]
      decode_rejects_short_input [of Item_t "encode example_item" example_item] m s d
    by blast
qed

section \<open>Claims about the packet functions\<close>

text \<open>
  Claim C1. For a client whose two encryption contexts hold 48-byte vectors, and with
  \<open>copyrightBytes\<close> as the package initialisation leaves it, \<open>SendWelcome\<close> hands one
  frame to the connection and returns 0 or -1 as the write went. The frame has 200 bytes:
  the 8-byte header with the little-endian size 200 and type \<open>WelcomeType\<close> (0x03) and a
  zero padding word, at offset 8 the 96-byte banner (the copyright string, shorter than 96
  bytes, followed by zeros), at offset 104 the server vector and at offset 152 the client
  vector.
\<close>

theorem SendWelcome_frame:
  assumes "length (Vector (clientCrypt client)) = 48"
    and "length (Vector (serverCrypt client)) = 48"
  shows "\<exists>frame.
     written (conn (snd (SendWelcome copyrightBytes client))) = written (conn client) @ [frame]
     \<and> fst (SendWelcome copyrightBytes client) =
         Inr (if snd (Write_result (conn client) (written (conn client)) frame) = None then 0 else - 1)
     \<and> length frame = 200
     \<and> take 8 frame = [0xC8, 0, 0x03, 0, 0, 0, 0, 0]
     \<and> le16 (frame ! 0) (frame ! 1) = 200
     \<and> le16 (frame ! 2) (frame ! 3) = of_nat WelcomeType
     \<and> length bbCopyright < 96
     \<and> take 96 (drop 8 frame) = map of_char bbCopyright @ replicate (96 - length bbCopyright) 0
     \<and> take 48 (drop 104 frame) = Vector (serverCrypt client)
     \<and> take 48 (drop 152 frame) = Vector (clientCrypt client)"
proof -
  let ?sv = "Vector (serverCrypt client)" and ?cv = "Vector (clientCrypt client)"
  let ?frame = "welcome_data copyrightBytes ?sv ?cv"
  have full: "?frame = [0xC8, 0, 0x03, 0, 0, 0, 0, 0] @ map of_char bbCopyright @ replicate 21 0 @ ?sv @ ?cv"
    using assms by (simp add: welcome_data_full)
  have len: "length ?frame = 200" by (rule length_welcome_data)
  have sent: "written (conn (snd (SendWelcome copyrightBytes client))) = written (conn client) @ [?frame]"
    by (simp add: SendWelcome_result)
  have res: "fst (SendWelcome copyrightBytes client) =
         Inr (if snd (Write_result (conn client) (written (conn client)) ?frame) = None then 0 else - 1)"
    by (rule SendWelcome_result)
  have hd: "take 8 ?frame = [0xC8, 0, 0x03, 0, 0, 0, 0, 0]" by (simp add: full)
  have sz: "le16 (?frame ! 0) (?frame ! 1) = 200" by (simp add: full le16_def)
  have ty: "le16 (?frame ! 2) (?frame ! 3) = of_nat WelcomeType"
    by (simp add: full le16_def WelcomeType_def)
  have lt: "length bbCopyright < 96" by (simp add: length_bbCopyright)
  have banner: "take 96 (drop 8 ?frame) = map of_char bbCopyright @ replicate (96 - length bbCopyright) 0"
    by (simp add: full length_bbCopyright)
  have sv: "take 48 (drop 104 ?frame) = ?sv"
    using assms by (simp add: full length_bbCopyright)
  have cv: "take 48 (drop 152 ?frame) = ?cv"
    using assms by (simp add: full length_bbCopyright)
  show ?thesis
    by (rule exI [of _ ?frame]) (intro conjI sent res len hd sz ty lt banner sv cv)
qed

text \<open>
  The example client: vectors 1..48 (client) and 101..148 (server), a connection that
  takes everything.
\<close>

theorem SendWelcome_frame_witness:
  "length (Vector (clientCrypt example_client)) = 48
   \<and> length (Vector (serverCrypt example_client)) = 48
   \<and> (\<exists>frame.
        written (conn (snd (SendWelcome copyrightBytes example_client))) = [frame]
        \<and> fst (SendWelcome copyrightBytes example_client) = Inr 0
        \<and> length frame = 200
        \<and> take 8 frame = [0xC8, 0, 0x03, 0, 0, 0, 0, 0]
        \<and> take 48 (drop 104 frame) = map of_nat [101 ..< 149]
        \<and> take 48 (drop 152 frame) = map of_nat [1 ..< 49])"
proof -
  have c: "length (Vector (clientCrypt example_client)) = 48"
    and s: "length (Vector (serverCrypt example_client)) = 48"
    by (simp_all add: example_client_def)
  from SendWelcome_frame [OF c s] obtain frame where
    "written (conn (snd (SendWelcome copyrightBytes example_client))) =
       written (conn example_client) @ [frame]"
    "fst (SendWelcome copyrightBytes example_client) =
       Inr (if snd (Write_result (conn example_client) (written (conn example_client)) frame) = None
            then 0 else - 1)"
    "length frame = 200"
    "take 8 frame = [0xC8, 0, 0x03, 0, 0, 0, 0, 0]"
    "take 48 (drop 104 frame) = Vector (serverCrypt example_client)"
    "take 48 (drop 152 frame) = Vector (clientCrypt example_client)"
    by blast
  then have "written (conn (snd (SendWelcome copyrightBytes example_client))) = [frame]
        \<and> fst (SendWelcome copyrightBytes example_client) = Inr 0
        \<and> length frame = 200
        \<and> take 8 frame = [0xC8, 0, 0x03, 0, 0, 0, 0, 0]
        \<and> take 48 (drop 104 frame) = map of_nat [101 ..< 149]
        \<and> take 48 (drop 152 frame) = map of_nat [1 ..< 49]"
    by (simp add: example_client_def full_writer_def)
  then show ?thesis using c s by blast
qed

text \<open>
  Claim C4. On a transport that keeps the contract of Go's \<open>Write\<close> (a count below the
  number of bytes given comes with an error), and for a length within the packet,
  \<open>SendPacket\<close> reports failure (-1) whenever the transport did not accept all the bytes,
  be it by an error or by a short write, and success (0) otherwise. It calls \<open>Write\<close>
  once, on the first \<open>len\<close> bytes, and never again. The code itself looks at the error
  only and relies on the contract for the byte count.
\<close>

theorem SendPacket_reports_failure:
  assumes "\<forall>history p. fst (Write_result (conn client) history p) < length p \<longrightarrow>
             snd (Write_result (conn client) history p) \<noteq> None"
    and "0 \<le> len" and "len \<le> int (length pkt)"
  shows "(fst (Write_result (conn client) (written (conn client)) (take (nat len) pkt)) < nat len
          \<or> snd (Write_result (conn client) (written (conn client)) (take (nat len) pkt)) \<noteq> None
          \<longrightarrow> fst (SendPacket client pkt len) = Inr (- 1))
     \<and> (nat len \<le> fst (Write_result (conn client) (written (conn client)) (take (nat len) pkt))
          \<and> snd (Write_result (conn client) (written (conn client)) (take (nat len) pkt)) = None
          \<longrightarrow> fst (SendPacket client pkt len) = Inr 0)
     \<and> fst (SendPacket client pkt len) =
           Inr (if snd (Write_result (conn client) (written (conn client)) (take (nat len) pkt)) = None
                then 0 else - 1)
     \<and> written (conn (snd (SendPacket client pkt len))) =
           written (conn client) @ [take (nat len) pkt]"
proof -
  let ?p = "take (nat len) pkt"
  let ?r = "Write_result (conn client) (written (conn client)) ?p"
  have l: "length ?p = nat len" using assms(2,3) by simp
  have r: "fst (SendPacket client pkt len) = Inr (if snd ?r = None then 0 else - 1)"
    using assms(2,3) by (rule SendPacket_in_range)
  have w: "written (conn (snd (SendPacket client pkt len))) = written (conn client) @ [?p]"
    using SendPacket_in_range(2) [OF assms(2,3), of client] by simp
  have short: "fst ?r < nat len \<longrightarrow> snd ?r \<noteq> None" using assms(1) l by metis
  have fail: "fst ?r < nat len \<or> snd ?r \<noteq> None \<longrightarrow> fst (SendPacket client pkt len) = Inr (- 1)"
    using r short by auto
  have ok: "nat len \<le> fst ?r \<and> snd ?r = None \<longrightarrow> fst (SendPacket client pkt len) = Inr 0"
    using r by simp
  show ?thesis using fail ok r w by blast
qed

text \<open>
  Four bytes to the transport that takes three are a short write and a failure; two bytes
  to it are a success; the failing transport is a failure. Each call adds one write.
\<close>

theorem SendPacket_reports_failure_witness:
  "(0 :: int) \<le> 4 \<and> (4 :: int) \<le> int (length [10, 20, 30, 40 :: u8])
   \<and> Write_result (conn limited_client) [] [10, 20, 30, 40] = (3, Some ''short write'')
   \<and> fst (SendPacket limited_client [10, 20, 30, 40] 4) = Inr (- 1)
   \<and> written (conn (snd (SendPacket limited_client [10, 20, 30, 40] 4))) = [[10, 20, 30, 40]]
   \<and> Write_result (conn limited_client) [] [10, 20] = (2, None)
   \<and> fst (SendPacket limited_client [10, 20, 30, 40] 2) = Inr 0
   \<and> written (conn (snd (SendPacket limited_client [10, 20, 30, 40] 2))) = [[10, 20]]
   \<and> fst (SendPacket failing_client [10, 20, 30, 40] 4) = Inr (- 1)
   \<and> written (conn (snd (SendPacket failing_client [10, 20, 30, 40] 4))) = [[1, 2], [10, 20, 30, 40]]"
proof -
  have c1: "\<forall>history p. fst (Write_result (conn limited_client) history p) < length p \<longrightarrow>
             snd (Write_result (conn limited_client) history p) \<noteq> None"
    by (simp add: limited_client_def limited_writer_def)
  have c2: "\<forall>history p. fst (Write_result (conn failing_client) history p) < length p \<longrightarrow>
             snd (Write_result (conn failing_client) history p) \<noteq> None"
    by (simp add: failing_client_def failing_writer_def)
  have a: "(0 :: int) \<le> 4" and b: "(4 :: int) \<le> int (length [10, 20, 30, 40 :: u8])"
    and a': "(0 :: int) \<le> 2" and b': "(2 :: int) \<le> int (length [10, 20, 30, 40 :: u8])"
    by simp_all
  show ?thesis
    using SendPacket_reports_failure [OF c1 a b] SendPacket_reports_failure [OF c1 a' b']
      SendPacket_reports_failure [OF c2 a b]
    by (simp add: limited_client_def failing_client_def example_client_def limited_writer_def
        failing_writer_def)
qed

end
